theory Spec2Isabelle
  imports Main
begin

section \<open>Values, errors and text helpers\<close>

text \<open>
  The models below follow the Django sources of the BioTutor backend
  (\<^verbatim>\<open>users/\<close>, \<^verbatim>\<open>schools/\<close>, \<^verbatim>\<open>content/\<close>). A Python exception is a value of
  \<open>error\<close>; an operation that touches the database takes the database and returns the
  database it leaves behind together with its outcome, also when it raises: the
  sources open no transaction, so rows written before an exception stay written.
\<close>

datatype error =
    ValidationError string string
  | ValueError string
  | IntegrityError string
  | KeyError string
  | AttributeError string
  | DoesNotExist
  | MultipleObjectsReturned
  | Http404
  | PermissionDenied

text \<open>
  \<^verbatim>\<open>set_password(raw)\<close> stores a hash of \<open>raw\<close>. The hash is kept symbolic:
  \<open>Hashed raw\<close> is the stored value that \<^verbatim>\<open>check_password(raw)\<close> accepts,
  \<open>Unusable\<close> is what \<^verbatim>\<open>set_password(None)\<close> stores, and \<open>Blank\<close> is the empty
  column of a row inserted before any password was set.
\<close>

datatype password_hash = Blank | Unusable | Hashed string

fun make_password :: "string option \<Rightarrow> password_hash" where
  "make_password None = Unusable"
| "make_password (Some raw) = Hashed raw"

subsection \<open>Decimal rendering: \<^verbatim>\<open>str(n)\<close> and the format \<^verbatim>\<open>{n:06d}\<close>\<close>

fun str_nat :: "nat \<Rightarrow> string" where
  "str_nat n =
     (if n < 10 then [''0123456789'' ! n]
      else str_nat (n div 10) @ [''0123456789'' ! (n mod 10)])"

declare str_nat.simps [simp del]

definition format_06d :: "nat \<Rightarrow> string" where
  "format_06d n = replicate (6 - length (str_nat n)) (CHR ''0'') @ str_nat n"

subsection \<open>Python string methods on ASCII text\<close>

definition isspace :: "char \<Rightarrow> bool" where
  "isspace c = (c \<in> set [CHR 0x09, CHR 0x0A, CHR 0x0B, CHR 0x0C, CHR 0x0D,
                          CHR 0x1C, CHR 0x1D, CHR 0x1E, CHR 0x1F, CHR 0x20])"

definition strip :: "string \<Rightarrow> string" where
  "strip s = rev (dropWhile isspace (rev (dropWhile isspace s)))"

definition lower_char :: "char \<Rightarrow> char" where
  "lower_char c =
     (case map_of (zip ''ABCDEFGHIJKLMNOPQRSTUVWXYZ'' ''abcdefghijklmnopqrstuvwxyz'') c of
        None \<Rightarrow> c
      | Some l \<Rightarrow> l)"

definition lower :: "string \<Rightarrow> string" where
  "lower s = map lower_char s"

text \<open>\<^verbatim>\<open>s.rsplit("@", 1)\<close>: the two parts around the last \<open>@\<close>, or nothing to unpack.\<close>

definition rsplit_at :: "string \<Rightarrow> (string \<times> string) option" where
  "rsplit_at s =
     (if CHR ''@'' \<in> set s
      then Some (rev (tl (dropWhile (\<lambda>c. c \<noteq> CHR ''@'') (rev s))),
                 rev (takeWhile (\<lambda>c. c \<noteq> CHR ''@'') (rev s)))
      else None)"

text \<open>
  \<^verbatim>\<open>BaseUserManager.normalize_email\<close> of Django, which \<^verbatim>\<open>create_user\<close> calls: the
  domain part is lower-cased; an address without \<open>@\<close> is returned as it came.
\<close>

definition normalize_email :: "string \<Rightarrow> string" where
  "normalize_email email =
     (case rsplit_at (strip email) of
        None \<Rightarrow> email
      | Some (email_name, domain_part) \<Rightarrow> email_name @ ''@'' @ lower domain_part)"

text \<open>
  \<^verbatim>\<open>django.utils.text.slugify\<close> on ASCII text: lower-case, keep word characters,
  white space and hyphens, turn every run of white space and hyphens into one hyphen,
  and strip hyphens and underscores from both ends. Bytes outside ASCII are dropped.
\<close>

definition is_word_char :: "char \<Rightarrow> bool" where
  "is_word_char c = (c \<in> set ''abcdefghijklmnopqrstuvwxyzABCDEFGHIJKLMNOPQRSTUVWXYZ0123456789_'')"

definition is_sep :: "char \<Rightarrow> bool" where
  "is_sep c = (c = CHR ''-'' \<or> isspace c)"

function collapse_seps :: "string \<Rightarrow> string" where
  "collapse_seps [] = []"
| "collapse_seps (c # cs) =
     (if is_sep c then CHR ''-'' # collapse_seps (dropWhile is_sep cs)
      else c # collapse_seps cs)"
  by pat_completeness auto
termination
  by (relation "measure length") (auto simp: less_Suc_eq_le length_dropWhile_le)

definition strip_chars :: "string \<Rightarrow> string \<Rightarrow> string" where
  "strip_chars chars s =
     rev (dropWhile (\<lambda>c. c \<in> set chars) (rev (dropWhile (\<lambda>c. c \<in> set chars) s)))"

definition slugify :: "string \<Rightarrow> string" where
  "slugify v =
     strip_chars ''-_''
       (collapse_seps (filter (\<lambda>c. is_word_char c \<or> is_sep c) (lower v)))"

section \<open>The data model\<close>

text \<open>
  One record per Django model, one field per column, with a prefix for the table
  (\<open>s_\<close> School, \<open>u_\<close> User, \<open>tp_\<close> TeacherProfile, \<open>sp_\<close> StudentProfile). Foreign
  keys hold the primary key of the row they point to; times are ticks of a clock.
  A School instance carries \<open>s_id = None\<close> until it has been inserted, since
  \<^verbatim>\<open>School.save\<close> is written for new and stored instances alike.
\<close>

record School =
  s_id :: "nat option"
  s_name :: string
  s_slug :: string
  s_email :: string
  s_phone_number :: string
  s_address :: string
  s_district :: string
  s_region :: string
  s_registration_number :: string
  s_is_active :: bool
  s_subscription_type :: string
  s_subscription_start_date :: "nat option"
  s_subscription_end_date :: "nat option"
  s_created_at :: nat
  s_updated_at :: nat

record User =
  u_id :: nat
  u_password :: password_hash
  u_last_login :: "nat option"
  u_is_superuser :: bool
  u_email :: string
  u_first_name :: string
  u_last_name :: string
  u_role :: string
  u_school :: "nat option"
  u_is_active :: bool
  u_is_staff :: bool
  u_date_joined :: nat

record TeacherProfile =
  tp_user :: nat
  tp_subject_specialization :: string
  tp_years_of_experience :: "nat option"
  tp_bio :: string
  tp_phone_number :: string
  tp_created_at :: nat
  tp_updated_at :: nat

record StudentProfile =
  sp_user :: nat
  sp_class_level :: string
  sp_student_id :: string
  sp_phone_number :: string
  sp_parent_email :: string
  sp_parent_phone :: string
  sp_weak_topics :: "nat list"
  sp_created_at :: nat
  sp_updated_at :: nat

text \<open>
  The tables, each in insertion order, and the two sequences that hand out the
  primary keys of \<^verbatim>\<open>schools\<close> and \<^verbatim>\<open>users\<close> (profiles are keyed by their user).
  The writes below check the unique constraints that the models declare; the length
  limits of the columns are not modelled.
\<close>

record DB =
  schools :: "School list"
  schools_seq :: nat
  users :: "User list"
  users_seq :: nat
  teacher_profiles :: "TeacherProfile list"
  student_profiles :: "StudentProfile list"

subsection \<open>Queries and writes of the ORM, with the constraints the models declare\<close>

text \<open>\<^verbatim>\<open>User.objects.filter(email=email).exists()\<close>\<close>

definition email_exists :: "DB \<Rightarrow> string \<Rightarrow> bool" where
  "email_exists db email = (\<exists>u \<in> set (users db). u_email u = email)"

text \<open>\<^verbatim>\<open>queryset.get(...)\<close> on the rows that match.\<close>

fun objects_get :: "'a list \<Rightarrow> error + 'a" where
  "objects_get [] = Inl DoesNotExist"
| "objects_get [x] = Inr x"
| "objects_get (x # y # zs) = Inl MultipleObjectsReturned"

text \<open>\<^verbatim>\<open>get_object_or_404(queryset, pk=pk)\<close>, as \<^verbatim>\<open>GenericAPIView.get_object\<close> calls it.\<close>

definition get_object_or_404 :: "'a list \<Rightarrow> error + 'a" where
  "get_object_or_404 rows =
     (case objects_get rows of
        Inl DoesNotExist \<Rightarrow> Inl Http404
      | Inl e \<Rightarrow> Inl e
      | Inr x \<Rightarrow> Inr x)"

text \<open>
  INSERT of a new user: \<^verbatim>\<open>email\<close> is \<^verbatim>\<open>unique=True\<close>; the other columns take the
  defaults of the model (\<^verbatim>\<open>is_active=True\<close>, \<^verbatim>\<open>is_staff=False\<close>,
  \<^verbatim>\<open>date_joined=timezone.now\<close>).
\<close>

definition User_insert ::
  "nat \<Rightarrow> string \<Rightarrow> password_hash \<Rightarrow> string \<Rightarrow> string \<Rightarrow> string \<Rightarrow> nat option \<Rightarrow> DB
     \<Rightarrow> (error + User) \<times> DB" where
  "User_insert now email password first_name last_name role school db =
     (if email_exists db email then (Inl (IntegrityError ''users.email''), db)
      else
        let user = \<lparr>u_id = users_seq db, u_password = password, u_last_login = None,
                     u_is_superuser = False, u_email = email, u_first_name = first_name,
                     u_last_name = last_name, u_role = role, u_school = school,
                     u_is_active = True, u_is_staff = False, u_date_joined = now\<rparr>
        in (Inr user, db\<lparr>users := users db @ [user], users_seq := Suc (users_seq db)\<rparr>))"

text \<open>\<^verbatim>\<open>user.save()\<close> of a stored user: UPDATE of the row with its primary key.\<close>

definition User_save :: "User \<Rightarrow> DB \<Rightarrow> (error + unit) \<times> DB" where
  "User_save user db =
     (if \<exists>x \<in> set (users db). u_id x \<noteq> u_id user \<and> u_email x = u_email user
      then (Inl (IntegrityError ''users.email''), db)
      else (Inr (),
            db\<lparr>users := map (\<lambda>x. if u_id x = u_id user then user else x) (users db)\<rparr>))"

text \<open>\<^verbatim>\<open>TeacherProfile.objects.create(user=user)\<close>: the user is the primary key.\<close>

definition TeacherProfile_objects_create :: "nat \<Rightarrow> User \<Rightarrow> DB \<Rightarrow> (error + TeacherProfile) \<times> DB" where
  "TeacherProfile_objects_create now user db =
     (if \<exists>p \<in> set (teacher_profiles db). tp_user p = u_id user
      then (Inl (IntegrityError ''teacher_profiles.user_id''), db)
      else
        let profile = \<lparr>tp_user = u_id user, tp_subject_specialization = ''Biology'',
                        tp_years_of_experience = None, tp_bio = [], tp_phone_number = [],
                        tp_created_at = now, tp_updated_at = now\<rparr>
        in (Inr profile, db\<lparr>teacher_profiles := teacher_profiles db @ [profile]\<rparr>))"

text \<open>
  \<^verbatim>\<open>StudentProfile.objects.create(user=..., class_level=..., student_id=..., ...)\<close>:
  the user is the primary key and \<^verbatim>\<open>student_id\<close> is \<^verbatim>\<open>unique=True\<close>.
\<close>

definition StudentProfile_objects_create ::
  "nat \<Rightarrow> User \<Rightarrow> string \<Rightarrow> string \<Rightarrow> string \<Rightarrow> string \<Rightarrow> string \<Rightarrow> DB
     \<Rightarrow> (error + StudentProfile) \<times> DB" where
  "StudentProfile_objects_create now user class_level student_id phone_number
       parent_email parent_phone db =
     (if \<exists>p \<in> set (student_profiles db). sp_user p = u_id user
      then (Inl (IntegrityError ''student_profiles.user_id''), db)
      else if \<exists>p \<in> set (student_profiles db). sp_student_id p = student_id
      then (Inl (IntegrityError ''student_profiles.student_id''), db)
      else
        let profile = \<lparr>sp_user = u_id user, sp_class_level = class_level,
                        sp_student_id = student_id, sp_phone_number = phone_number,
                        sp_parent_email = parent_email, sp_parent_phone = parent_phone,
                        sp_weak_topics = [], sp_created_at = now, sp_updated_at = now\<rparr>
        in (Inr profile, db\<lparr>student_profiles := student_profiles db @ [profile]\<rparr>))"

text \<open>
  \<^verbatim>\<open>Model.save\<close> for a School, which \<^verbatim>\<open>School.save\<close> reaches through
  \<^verbatim>\<open>super().save\<close>: \<^verbatim>\<open>updated_at\<close> is \<^verbatim>\<open>auto_now\<close>, \<^verbatim>\<open>created_at\<close> is
  \<^verbatim>\<open>auto_now_add\<close>; \<^verbatim>\<open>name\<close>, \<^verbatim>\<open>slug\<close> and \<^verbatim>\<open>registration_number\<close> are unique.
  A stored instance is updated in place, any other is inserted. The instance is
  returned as the call leaves it, also when the write is refused.
\<close>

definition School_unique_conflict :: "School \<Rightarrow> DB \<Rightarrow> bool" where
  "School_unique_conflict s db =
     (\<exists>x \<in> set (schools db). s_id x \<noteq> s_id s \<and>
        (s_name x = s_name s \<or> s_slug x = s_slug s \<or>
         s_registration_number x = s_registration_number s))"

definition Model_save_School :: "nat \<Rightarrow> School \<Rightarrow> DB \<Rightarrow> (error + unit) \<times> School \<times> DB" where
  "Model_save_School now s db =
     (if s_id s \<noteq> None \<and> (\<exists>x \<in> set (schools db). s_id x = s_id s)
      then
        let s1 = s\<lparr>s_updated_at := now\<rparr>
        in if School_unique_conflict s1 db then (Inl (IntegrityError ''schools''), s1, db)
           else (Inr (), s1,
                 db\<lparr>schools := map (\<lambda>x. if s_id x = s_id s1 then s1 else x) (schools db)\<rparr>)
      else
        let s1 = s\<lparr>s_created_at := now, s_updated_at := now\<rparr>
        in if School_unique_conflict s1 db then (Inl (IntegrityError ''schools''), s1, db)
           else (case s_id s1 of
                   None \<Rightarrow>
                     let s2 = s1\<lparr>s_id := Some (schools_seq db)\<rparr>
                     in (Inr (), s2,
                         db\<lparr>schools := schools db @ [s2], schools_seq := Suc (schools_seq db)\<rparr>)
                 | Some i \<Rightarrow> (Inr (), s1, db\<lparr>schools := schools db @ [s1]\<rparr>)))"

section \<open>Permissions (\<^verbatim>\<open>users/permissions.py\<close>)\<close>

text \<open>
  \<^verbatim>\<open>request.user\<close> is \<open>None\<close> for an anonymous request (Django's
  \<^verbatim>\<open>AnonymousUser\<close>, whose \<^verbatim>\<open>is_authenticated\<close> is false) and the stored user otherwise.
\<close>

definition IsSuperAdmin_has_permission :: "User option \<Rightarrow> bool" where
  "IsSuperAdmin_has_permission request_user =
     (case request_user of None \<Rightarrow> False | Some user \<Rightarrow> u_role user = ''SUPER_ADMIN'')"

definition IsSchoolAdmin_has_permission :: "User option \<Rightarrow> bool" where
  "IsSchoolAdmin_has_permission request_user =
     (case request_user of None \<Rightarrow> False | Some user \<Rightarrow> u_role user = ''SCHOOL_ADMIN'')"

text \<open>
  What \<^verbatim>\<open>IsSameSchool.has_object_permission\<close> looks at in the object it is given:
  whether it has an attribute \<^verbatim>\<open>school\<close> and its value (a school's key or
  \<^verbatim>\<open>None\<close>), and whether it has an attribute \<^verbatim>\<open>role\<close>.
\<close>

record py_object =
  attr_school :: "nat option option"
  attr_role :: "string option"

definition User_object :: "User \<Rightarrow> py_object" where
  "User_object user = \<lparr>attr_school = Some (u_school user), attr_role = Some (u_role user)\<rparr>"

definition IsSameSchool_has_object_permission :: "User \<Rightarrow> py_object \<Rightarrow> error + bool" where
  "IsSameSchool_has_object_permission request_user obj =
     (if u_role request_user = ''SUPER_ADMIN'' then Inr True
      else if u_role request_user = ''SCHOOL_ADMIN'' then
        (case attr_school obj of
           Some school \<Rightarrow> Inr (school = u_school request_user)
         | None \<Rightarrow>
             (case attr_role obj of
                Some r \<Rightarrow> Inl (AttributeError ''school'')
              | None \<Rightarrow> Inr False))
      else Inr False)"

section \<open>Responses\<close>

record created_student =
  c_id :: nat
  c_email :: string
  c_name :: string
  c_student_id :: string

datatype body =
    Message string
  | Errors "(string \<times> string list) list"
  | RegisteredUser nat string string string string "nat option"
  | BulkCreated string "created_student list"

datatype response = Response body nat

section \<open>User registration (\<^verbatim>\<open>users/serializers.py\<close>)\<close>

text \<open>
  The dictionary \<^verbatim>\<open>attrs\<close> that \<^verbatim>\<open>UserRegistrationSerializer.validate\<close> receives,
  after the framework has validated each field: \<^verbatim>\<open>role\<close> is a required choice,
  \<^verbatim>\<open>school\<close> is optional and nullable, and \<^verbatim>\<open>attrs.get('school')\<close> reads
  \<^verbatim>\<open>None\<close> for both an absent and a null school.
\<close>

record attrs =
  a_email :: string
  a_first_name :: string
  a_last_name :: string
  a_role :: string
  a_school :: "nat option"
  a_password :: string
  a_password_confirm :: string

definition validate :: "attrs \<Rightarrow> error + attrs" where
  "validate attrs =
     (if a_password attrs \<noteq> a_password_confirm attrs
      then Inl (ValidationError ''password'' ''Password fields didn't match.'')
      else if a_role attrs = ''SUPER_ADMIN'' \<and> a_school attrs \<noteq> None
      then Inl (ValidationError ''school'' ''Super Admin cannot be assigned to a school.'')
      else if a_role attrs \<noteq> ''SUPER_ADMIN'' \<and> a_school attrs = None
      then Inl (ValidationError ''school'' ''This role requires a school assignment.'')
      else Inr attrs)"

text \<open>
  \<^verbatim>\<open>UserRegistrationSerializer.create\<close>: the user row is inserted, then updated with
  the hashed password, then the profile for its role is inserted.
\<close>

definition UserRegistrationSerializer_create :: "nat \<Rightarrow> attrs \<Rightarrow> DB \<Rightarrow> (error + User) \<times> DB" where
  "UserRegistrationSerializer_create now validated_data db =
     (case User_insert now (a_email validated_data) Blank (a_first_name validated_data)
             (a_last_name validated_data) (a_role validated_data) (a_school validated_data) db of
        (Inl e, db1) \<Rightarrow> (Inl e, db1)
      | (Inr created, db1) \<Rightarrow>
          let user = created\<lparr>u_password := make_password (Some (a_password validated_data))\<rparr>
          in (case User_save user db1 of
                (Inl e, db2) \<Rightarrow> (Inl e, db2)
              | (Inr u, db2) \<Rightarrow>
                  if u_role user = ''TEACHER'' then
                    (case TeacherProfile_objects_create now user db2 of
                       (Inl e, db3) \<Rightarrow> (Inl e, db3)
                     | (Inr profile, db3) \<Rightarrow> (Inr user, db3))
                  else if u_role user = ''STUDENT'' then
                    (case StudentProfile_objects_create now user ''S1''
                            (''STD'' @ format_06d (u_id user)) [] [] [] db2 of
                       (Inl e, db3) \<Rightarrow> (Inl e, db3)
                     | (Inr profile, db3) \<Rightarrow> (Inr user, db3))
                  else (Inr user, db2)))"

section \<open>User creation views (\<^verbatim>\<open>users/views.py\<close>)\<close>

text \<open>
  \<^verbatim>\<open>CreateAPIView.create\<close> of the framework: the serializer validates the request
  data, \<^verbatim>\<open>perform_create\<close> calls \<^verbatim>\<open>serializer.save(**kwargs)\<close>, which merges the
  keyword arguments over the validated data and calls \<^verbatim>\<open>create\<close>; the answer is
  201 with the serialized user. \<open>save_kwargs\<close> is that merge.
\<close>

definition CreateAPIView_create ::
  "(attrs \<Rightarrow> attrs) \<Rightarrow> nat \<Rightarrow> attrs \<Rightarrow> DB \<Rightarrow> (error + response) \<times> DB" where
  "CreateAPIView_create save_kwargs now data db =
     (case validate data of
        Inl e \<Rightarrow> (Inl e, db)
      | Inr validated_data \<Rightarrow>
          (case UserRegistrationSerializer_create now (save_kwargs validated_data) db of
             (Inl e, db1) \<Rightarrow> (Inl e, db1)
           | (Inr user, db1) \<Rightarrow>
               (Inr (Response (RegisteredUser (u_id user) (u_email user) (u_first_name user)
                        (u_last_name user) (u_role user) (u_school user)) 201), db1)))"

definition request_user_school :: "User option \<Rightarrow> nat option" where
  "request_user_school request_user =
     (case request_user of None \<Rightarrow> None | Some user \<Rightarrow> u_school user)"

definition SchoolAdminCreateView_post ::
  "User option \<Rightarrow> nat \<Rightarrow> attrs \<Rightarrow> DB \<Rightarrow> (error + response) \<times> DB" where
  "SchoolAdminCreateView_post request_user now data db =
     (if \<not> IsSuperAdmin_has_permission request_user then (Inl PermissionDenied, db)
      else CreateAPIView_create (\<lambda>vd. vd\<lparr>a_role := ''SCHOOL_ADMIN''\<rparr>) now data db)"

definition TeacherCreateView_post ::
  "User option \<Rightarrow> nat \<Rightarrow> attrs \<Rightarrow> DB \<Rightarrow> (error + response) \<times> DB" where
  "TeacherCreateView_post request_user now data db =
     (if \<not> IsSchoolAdmin_has_permission request_user then (Inl PermissionDenied, db)
      else CreateAPIView_create
             (\<lambda>vd. vd\<lparr>a_role := ''TEACHER'', a_school := request_user_school request_user\<rparr>)
             now data db)"

definition StudentCreateView_post ::
  "User option \<Rightarrow> nat \<Rightarrow> attrs \<Rightarrow> DB \<Rightarrow> (error + response) \<times> DB" where
  "StudentCreateView_post request_user now data db =
     (if \<not> IsSchoolAdmin_has_permission request_user then (Inl PermissionDenied, db)
      else CreateAPIView_create
             (\<lambda>vd. vd\<lparr>a_role := ''STUDENT'', a_school := request_user_school request_user\<rparr>)
             now data db)"

section \<open>Bulk student creation\<close>

text \<open>
  One entry of the submitted list: a dictionary from field names to text
  (\<^verbatim>\<open>ListField(child=DictField(), allow_empty=False)\<close>), as the rows of a CSV
  file give it. A key is absent (\<open>None\<close>) or bound to a string, possibly empty.
\<close>

type_synonym student_entry = "string \<rightharpoonup> string"

definition dict_get :: "student_entry \<Rightarrow> string \<Rightarrow> string \<Rightarrow> string" where
  "dict_get d k dflt = (case d k of None \<Rightarrow> dflt | Some v \<Rightarrow> v)"

text \<open>How an f-string renders the value of \<^verbatim>\<open>d.get(k)\<close>, and the text in single quotes.\<close>

definition py_str :: "string option \<Rightarrow> string" where
  "py_str v = (case v of None \<Rightarrow> ''None'' | Some s \<Rightarrow> s)"

definition quoted :: "string \<Rightarrow> string" where
  "quoted s = [CHR 0x27] @ s @ [CHR 0x27]"

definition required_fields :: "string list" where
  "required_fields = [''email'', ''first_name'', ''last_name'', ''class_level'']"

definition valid_levels :: "string list" where
  "valid_levels = [''S1'', ''S2'', ''S3'', ''S4'', ''S5'', ''S6'']"

text \<open>
  The body of the loop of \<^verbatim>\<open>BulkStudentCreateSerializer.validate_students\<close> for the
  entry at index \<open>idx\<close>: the error it raises, if any.
\<close>

definition validate_student :: "DB \<Rightarrow> nat \<Rightarrow> student_entry \<Rightarrow> error option" where
  "validate_student db idx student =
     (case find (\<lambda>field. student field = None) required_fields of
        Some field \<Rightarrow>
          Some (ValidationError ''students''
                  (''Student '' @ str_nat (idx + 1) @ '': Missing required field '' @ quoted field))
      | None \<Rightarrow>
          let email = student ''email'' in
          if (case email of None \<Rightarrow> False | Some e \<Rightarrow> e \<noteq> [] \<and> email_exists db e)
          then Some (ValidationError ''students''
                       (''Student '' @ str_nat (idx + 1) @ '': Email '' @ quoted (py_str email)
                          @ '' already exists''))
          else
            let class_level = student ''class_level'' in
            if class_level \<notin> set (map Some valid_levels)
            then Some (ValidationError ''students''
                         (''Student '' @ str_nat (idx + 1) @ '': Invalid class level ''
                            @ quoted (py_str class_level)))
            else None)"

fun validate_students_from :: "DB \<Rightarrow> nat \<Rightarrow> student_entry list \<Rightarrow> error option" where
  "validate_students_from db idx [] = None"
| "validate_students_from db idx (student # rest) =
     (case validate_student db idx student of
        Some e \<Rightarrow> Some e
      | None \<Rightarrow> validate_students_from db (Suc idx) rest)"

definition validate_students :: "DB \<Rightarrow> student_entry list \<Rightarrow> error + student_entry list" where
  "validate_students db val =
     (case validate_students_from db 0 val of Some e \<Rightarrow> Inl e | None \<Rightarrow> Inr val)"

text \<open>\<^verbatim>\<open>serializer.is_valid()\<close>: the list field refuses an empty list, then the method above runs.\<close>

definition BulkStudentCreateSerializer_is_valid ::
  "DB \<Rightarrow> student_entry list \<Rightarrow> error + student_entry list" where
  "BulkStudentCreateSerializer_is_valid db students =
     (if students = [] then Inl (ValidationError ''students'' ''This list may not be empty.'')
      else validate_students db students)"

text \<open>\<^verbatim>\<open>UserManager.create_user\<close> (\<^verbatim>\<open>users/models.py\<close>).\<close>

definition create_user ::
  "nat \<Rightarrow> string \<Rightarrow> string option \<Rightarrow> string \<Rightarrow> string \<Rightarrow> string \<Rightarrow> nat option \<Rightarrow> DB
     \<Rightarrow> (error + User) \<times> DB" where
  "create_user now email password first_name last_name role school db =
     (if email = [] then (Inl (ValueError ''Users must have an email address''), db)
      else User_insert now (normalize_email email) (make_password password)
             first_name last_name role school db)"

definition get_full_name :: "User \<Rightarrow> string" where
  "get_full_name user = strip (u_first_name user @ '' '' @ u_last_name user)"

text \<open>
  The body of the loop of \<^verbatim>\<open>BulkStudentCreateView.post\<close> for one entry: a user, its
  student profile, and the summary appended to \<^verbatim>\<open>created_students\<close>.
\<close>

definition create_student ::
  "nat \<Rightarrow> nat option \<Rightarrow> student_entry \<Rightarrow> DB \<Rightarrow> (error + created_student) \<times> DB" where
  "create_student now school student_data db =
     (case student_data ''email'' of
        None \<Rightarrow> (Inl (KeyError ''email''), db)
      | Some email \<Rightarrow>
     (case student_data ''first_name'' of
        None \<Rightarrow> (Inl (KeyError ''first_name''), db)
      | Some first_name \<Rightarrow>
     (case student_data ''last_name'' of
        None \<Rightarrow> (Inl (KeyError ''last_name''), db)
      | Some last_name \<Rightarrow>
     (case create_user now email (Some (dict_get student_data ''password'' ''BioTutor2025!''))
             first_name last_name ''STUDENT'' school db of
        (Inl e, db1) \<Rightarrow> (Inl e, db1)
      | (Inr user, db1) \<Rightarrow>
     (case student_data ''class_level'' of
        None \<Rightarrow> (Inl (KeyError ''class_level''), db1)
      | Some class_level \<Rightarrow>
     (case StudentProfile_objects_create now user class_level
             (dict_get student_data ''student_id'' (''STD'' @ format_06d (u_id user)))
             (dict_get student_data ''phone_number'' [])
             (dict_get student_data ''parent_email'' [])
             (dict_get student_data ''parent_phone'' []) db1 of
        (Inl e, db2) \<Rightarrow> (Inl e, db2)
      | (Inr profile, db2) \<Rightarrow>
          (Inr \<lparr>c_id = u_id user, c_email = u_email user, c_name = get_full_name user,
                c_student_id = sp_student_id profile\<rparr>, db2)))))))"

fun create_students ::
  "nat \<Rightarrow> nat option \<Rightarrow> student_entry list \<Rightarrow> created_student list \<Rightarrow> DB
     \<Rightarrow> (error + created_student list) \<times> DB" where
  "create_students now school [] created_students db = (Inr created_students, db)"
| "create_students now school (student_data # rest) created_students db =
     (case create_student now school student_data db of
        (Inl e, db1) \<Rightarrow> (Inl e, db1)
      | (Inr c, db1) \<Rightarrow> create_students now school rest (created_students @ [c]) db1)"

definition BulkStudentCreateView_post ::
  "User option \<Rightarrow> nat \<Rightarrow> student_entry list \<Rightarrow> DB \<Rightarrow> (error + response) \<times> DB" where
  "BulkStudentCreateView_post request_user now students db =
     (if \<not> IsSchoolAdmin_has_permission request_user then (Inl PermissionDenied, db)
      else
        (case BulkStudentCreateSerializer_is_valid db students of
           Inl (ValidationError field message) \<Rightarrow>
             (Inr (Response (Errors [(field, [message])]) 400), db)
         | Inl e \<Rightarrow> (Inl e, db)
         | Inr students_data \<Rightarrow>
             (case create_students now (request_user_school request_user) students_data [] db of
                (Inl e, db1) \<Rightarrow> (Inl e, db1)
              | (Inr created_students, db1) \<Rightarrow>
                  (Inr (Response
                          (BulkCreated
                             (''Successfully created '' @ str_nat (length created_students)
                                @ '' students'')
                             created_students) 201), db1))))"

section \<open>Password reset request\<close>

text \<open>
  \<^verbatim>\<open>PasswordResetRequestSerializer\<close> has the single field
  \<^verbatim>\<open>email = serializers.EmailField(required=True)\<close>. The field's validation belongs to
  the framework and is a parameter here: \<open>EmailField\<close> maps the submitted value (or
  \<open>None\<close> when the key is missing) to the validated address or to its error messages.
\<close>

definition password_reset_request ::
  "(string option \<Rightarrow> string list + string) \<Rightarrow> string option \<Rightarrow> DB \<Rightarrow> error + response" where
  "password_reset_request EmailField data_email db =
     (case EmailField data_email of
        Inr email \<Rightarrow>
          (case objects_get (filter (\<lambda>u. u_email u = email) (users db)) of
             Inr user \<Rightarrow> Inr (Response (Message ''Password reset link sent to email'') 200)
           | Inl DoesNotExist \<Rightarrow> Inr (Response (Message ''Password reset link sent to email'') 200)
           | Inl e \<Rightarrow> Inl e)
      | Inl errors \<Rightarrow> Inr (Response (Errors [(''email'', errors)]) 400))"

section \<open>Soft deletion of users and schools\<close>

definition UserDetailView_destroy :: "User option \<Rightarrow> nat \<Rightarrow> DB \<Rightarrow> (error + response) \<times> DB" where
  "UserDetailView_destroy request_user pk db =
     (if \<not> IsSuperAdmin_has_permission request_user then (Inl PermissionDenied, db)
      else
        (case get_object_or_404 (filter (\<lambda>u. u_id u = pk) (users db)) of
           Inl e \<Rightarrow> (Inl e, db)
         | Inr user \<Rightarrow>
             (case User_save (user\<lparr>u_is_active := False\<rparr>) db of
                (Inl e, db1) \<Rightarrow> (Inl e, db1)
              | (Inr u, db1) \<Rightarrow>
                  (Inr (Response (Message ''User deactivated successfully'') 200), db1))))"

text \<open>
  \<^verbatim>\<open>SchoolUserDetailView\<close>: the queryset holds the users of the requester's school,
  and \<^verbatim>\<open>get_object\<close> checks \<^verbatim>\<open>IsSameSchool\<close> on the user it found.
\<close>

definition SchoolUserDetailView_destroy ::
  "User option \<Rightarrow> nat \<Rightarrow> DB \<Rightarrow> (error + response) \<times> DB" where
  "SchoolUserDetailView_destroy request_user pk db =
     (case request_user of
        None \<Rightarrow> (Inl PermissionDenied, db)
      | Some requester \<Rightarrow>
          if \<not> IsSchoolAdmin_has_permission request_user then (Inl PermissionDenied, db)
          else
            (case get_object_or_404
                    (filter (\<lambda>u. u_id u = pk)
                       (filter (\<lambda>u. u_school u = u_school requester) (users db))) of
               Inl e \<Rightarrow> (Inl e, db)
             | Inr user \<Rightarrow>
                 (case IsSameSchool_has_object_permission requester (User_object user) of
                    Inl e \<Rightarrow> (Inl e, db)
                  | Inr False \<Rightarrow> (Inl PermissionDenied, db)
                  | Inr True \<Rightarrow>
                      (case User_save (user\<lparr>u_is_active := False\<rparr>) db of
                         (Inl e, db1) \<Rightarrow> (Inl e, db1)
                       | (Inr u, db1) \<Rightarrow>
                           (Inr (Response (Message ''User deactivated successfully'') 200),
                            db1)))))"

text \<open>\<^verbatim>\<open>School.save\<close> (\<^verbatim>\<open>schools/models.py\<close>).\<close>

definition School_save :: "nat \<Rightarrow> School \<Rightarrow> DB \<Rightarrow> (error + unit) \<times> School \<times> DB" where
  "School_save now s db =
     Model_save_School now (if s_slug s = [] then s\<lparr>s_slug := slugify (s_name s)\<rparr> else s) db"

text \<open>\<^verbatim>\<open>SchoolDetailView.destroy\<close>; for DELETE, \<^verbatim>\<open>get_permissions\<close> asks for a Super Admin.\<close>

definition SchoolDetailView_destroy ::
  "User option \<Rightarrow> nat \<Rightarrow> nat \<Rightarrow> DB \<Rightarrow> (error + response) \<times> DB" where
  "SchoolDetailView_destroy request_user now pk db =
     (if \<not> IsSuperAdmin_has_permission request_user then (Inl PermissionDenied, db)
      else
        (case get_object_or_404 (filter (\<lambda>s. s_id s = Some pk) (schools db)) of
           Inl e \<Rightarrow> (Inl e, db)
         | Inr school \<Rightarrow>
             (case School_save now (school\<lparr>s_is_active := False\<rparr>) db of
                (Inl e, saved, db1) \<Rightarrow> (Inl e, db1)
              | (Inr u, saved, db1) \<Rightarrow>
                  (Inr (Response (Message ''School deactivated successfully'') 200), db1))))"

section \<open>Topics (\<^verbatim>\<open>content/models.py\<close>)\<close>

record Topic =
  t_id :: nat
  t_curriculum_class :: nat
  t_title :: string
  t_description :: string
  t_order :: nat
  t_learning_objectives :: string
  t_key_concepts :: "string list"
  t_created_at :: nat
  t_updated_at :: nat

record TopicTable =
  topics :: "Topic list"
  topics_seq :: nat

text \<open>\<^verbatim>\<open>Topic.Meta.unique_together = ['curriculum_class', 'title']\<close>: the key of the constraint.\<close>

definition Topic_unique_together :: "Topic \<Rightarrow> nat \<times> string" where
  "Topic_unique_together t = (t_curriculum_class t, t_title t)"

text \<open>
  \<^verbatim>\<open>Topic.objects.create(...)\<close>: the row is inserted unless a stored topic has the
  same key, in which case the database raises an integrity error.
\<close>

definition Topic_objects_create ::
  "nat \<Rightarrow> nat \<Rightarrow> string \<Rightarrow> string \<Rightarrow> nat \<Rightarrow> TopicTable \<Rightarrow> (error + Topic) \<times> TopicTable" where
  "Topic_objects_create now curriculum_class title description order_in_class tbl =
     (let topic = \<lparr>t_id = topics_seq tbl, t_curriculum_class = curriculum_class,
                   t_title = title, t_description = description, t_order = order_in_class,
                   t_learning_objectives = [], t_key_concepts = [],
                   t_created_at = now, t_updated_at = now\<rparr>
      in if \<exists>x \<in> set (topics tbl). Topic_unique_together x = Topic_unique_together topic
         then (Inl (IntegrityError ''topics.curriculum_class_id, topics.title''), tbl)
         else (Inr topic, tbl\<lparr>topics := topics tbl @ [topic], topics_seq := Suc (topics_seq tbl)\<rparr>))"

section \<open>Sample data\<close>

text \<open>
  The rows that \<^verbatim>\<open>scripts/create_test_data.py\<close> creates, used below to run the
  models on concrete requests.
\<close>

definition test_high_school :: School where
  "test_high_school =
     \<lparr>s_id = Some 1, s_name = ''Test High School'', s_slug = ''test-high-school'',
      s_email = ''admin@testhigh.com'', s_phone_number = ''+256700000000'',
      s_address = ''123 Test Street'', s_district = ''Kampala'', s_region = ''Central'',
      s_registration_number = ''THS2025'', s_is_active = True,
      s_subscription_type = ''BASIC'', s_subscription_start_date = None,
      s_subscription_end_date = None, s_created_at = 100, s_updated_at = 100\<rparr>"

definition super_admin :: User where
  "super_admin =
     \<lparr>u_id = 1, u_password = Hashed ''Admin@2025'', u_last_login = None,
      u_is_superuser = True, u_email = ''superadmin@biotutor.com'', u_first_name = ''Super'',
      u_last_name = ''Admin'', u_role = ''SUPER_ADMIN'', u_school = None,
      u_is_active = True, u_is_staff = True, u_date_joined = 101\<rparr>"

definition school_admin :: User where
  "school_admin =
     \<lparr>u_id = 2, u_password = Hashed ''School@2025'', u_last_login = None,
      u_is_superuser = False, u_email = ''schooladmin@testhigh.com'', u_first_name = ''School'',
      u_last_name = ''Administrator'', u_role = ''SCHOOL_ADMIN'', u_school = Some 1,
      u_is_active = True, u_is_staff = False, u_date_joined = 102\<rparr>"

definition teacher :: User where
  "teacher =
     \<lparr>u_id = 3, u_password = Hashed ''Teacher@2025'', u_last_login = None,
      u_is_superuser = False, u_email = ''teacher@testhigh.com'', u_first_name = ''Test'',
      u_last_name = ''Teacher'', u_role = ''TEACHER'', u_school = Some 1,
      u_is_active = True, u_is_staff = False, u_date_joined = 103\<rparr>"

definition test_db :: DB where
  "test_db =
     \<lparr>schools = [test_high_school], schools_seq = 2,
      users = [super_admin, school_admin, teacher], users_seq = 4,
      teacher_profiles = [], student_profiles = []\<rparr>"

definition registration :: attrs where
  "registration =
     \<lparr>a_email = ''amina@testhigh.com'', a_first_name = ''Amina'', a_last_name = ''Okello'',
      a_role = ''TEACHER'', a_school = Some 1, a_password = ''Amina@2025'',
      a_password_confirm = ''Amina@2025''\<rparr>"

definition student_a :: student_entry where
  "student_a =
     [''email'' \<mapsto> ''brian@testhigh.com'', ''first_name'' \<mapsto> ''Brian'',
      ''last_name'' \<mapsto> ''Mugisha'', ''class_level'' \<mapsto> ''S2'']"

definition student_b :: student_entry where
  "student_b =
     [''email'' \<mapsto> ''carol@testhigh.com'', ''first_name'' \<mapsto> ''Carol'',
      ''last_name'' \<mapsto> ''Namara'', ''class_level'' \<mapsto> ''S3'',
      ''password'' \<mapsto> ''Carol@2025'', ''student_id'' \<mapsto> ''THS-0042'']"

text \<open>A stand-in for the framework's e-mail field: a value with an \<open>@\<close> is accepted as it is.\<close>

definition sample_EmailField :: "string option \<Rightarrow> string list + string" where
  "sample_EmailField v =
     (case v of
        None \<Rightarrow> Inl [''This field is required.'']
      | Some e \<Rightarrow> if CHR ''@'' \<in> set e then Inr e else Inl [''Enter a valid email address.''])"

definition the_cell :: Topic where
  "the_cell =
     \<lparr>t_id = 1, t_curriculum_class = 1, t_title = ''The Cell'',
      t_description = ''Structure of the cell'', t_order = 1, t_learning_objectives = [],
      t_key_concepts = [], t_created_at = 100, t_updated_at = 100\<rparr>"

definition topic_table :: TopicTable where
  "topic_table = \<lparr>topics = [the_cell], topics_seq = 2\<rparr>"

section \<open>Registration validation\<close>

text \<open>
  Claim C4. \<^verbatim>\<open>UserRegistrationSerializer.validate\<close> raises a validation error whenever
  the role is \<^verbatim>\<open>SUPER_ADMIN\<close> and a school is set, and whenever the role is another
  one and no school is set; when neither holds and the two passwords agree, it returns
  the attributes it was given.
\<close>

theorem validate_role_school:
  "(a_role attrs = ''SUPER_ADMIN'' \<and> a_school attrs \<noteq> None
      \<longrightarrow> (\<exists>field message. validate attrs = Inl (ValidationError field message))) \<and>
   (a_role attrs \<noteq> ''SUPER_ADMIN'' \<and> a_school attrs = None
      \<longrightarrow> (\<exists>field message. validate attrs = Inl (ValidationError field message))) \<and>
   (\<not> (a_role attrs = ''SUPER_ADMIN'' \<and> a_school attrs \<noteq> None) \<and>
    \<not> (a_role attrs \<noteq> ''SUPER_ADMIN'' \<and> a_school attrs = None) \<and>
    a_password attrs = a_password_confirm attrs
      \<longrightarrow> validate attrs = Inr attrs)"
  by (auto simp: validate_def)

theorem validate_role_school_witness:
  "(\<exists>field message.
      validate (registration\<lparr>a_role := ''SUPER_ADMIN''\<rparr>) = Inl (ValidationError field message)) \<and>
   (\<exists>field message.
      validate (registration\<lparr>a_school := None\<rparr>) = Inl (ValidationError field message)) \<and>
   validate registration = Inr registration \<and>
   validate (registration\<lparr>a_role := ''SUPER_ADMIN'', a_school := None\<rparr>)
     = Inr (registration\<lparr>a_role := ''SUPER_ADMIN'', a_school := None\<rparr>)"
  using validate_role_school [of "registration\<lparr>a_role := ''SUPER_ADMIN''\<rparr>"]
    validate_role_school [of "registration\<lparr>a_school := None\<rparr>"]
    validate_role_school [of registration]
    validate_role_school [of "registration\<lparr>a_role := ''SUPER_ADMIN'', a_school := None\<rparr>"]
  by (simp add: registration_def)

section \<open>The same-school permission\<close>

text \<open>
  Claim C5. \<^verbatim>\<open>IsSameSchool.has_object_permission\<close> returns true for a requester whose
  role is \<^verbatim>\<open>SUPER_ADMIN\<close>, whatever the object; for a requester whose role is
  \<^verbatim>\<open>SCHOOL_ADMIN\<close> it returns true exactly when the object has a school and that
  school is the requester's.
\<close>

theorem IsSameSchool_has_object_permission_spec:
  "(u_role request_user = ''SUPER_ADMIN''
      \<longrightarrow> IsSameSchool_has_object_permission request_user obj = Inr True) \<and>
   (u_role request_user = ''SCHOOL_ADMIN''
      \<longrightarrow> (IsSameSchool_has_object_permission request_user obj = Inr True
            \<longleftrightarrow> attr_school obj = Some (u_school request_user)))"
  by (auto simp: IsSameSchool_has_object_permission_def split: option.splits)

theorem IsSameSchool_has_object_permission_witness:
  "IsSameSchool_has_object_permission super_admin (User_object teacher) = Inr True \<and>
   IsSameSchool_has_object_permission school_admin (User_object teacher) = Inr True \<and>
   IsSameSchool_has_object_permission school_admin (User_object super_admin) \<noteq> Inr True \<and>
   IsSameSchool_has_object_permission school_admin \<lparr>attr_school = None, attr_role = None\<rparr>
     \<noteq> Inr True"
  using IsSameSchool_has_object_permission_spec [of super_admin "User_object teacher"]
    IsSameSchool_has_object_permission_spec [of school_admin "User_object teacher"]
    IsSameSchool_has_object_permission_spec [of school_admin "User_object super_admin"]
    IsSameSchool_has_object_permission_spec
      [of school_admin "\<lparr>attr_school = None, attr_role = None\<rparr>"]
  by (simp add: super_admin_def school_admin_def teacher_def User_object_def)

section \<open>The slug of a school\<close>

lemma Model_save_School_slug: "s_slug (fst (snd (Model_save_School now s db))) = s_slug s"
  by (simp add: Model_save_School_def Let_def split: option.splits)

lemma Model_save_School_stored:
  "fst (Model_save_School now s db) = Inr () \<Longrightarrow>
   fst (snd (Model_save_School now s db)) \<in> set (schools (snd (snd (Model_save_School now s db))))"
  by (auto simp: Model_save_School_def Let_def split: option.splits if_splits)

lemma slugify_sample: "slugify ''Hill Side College'' = ''hill-side-college''"
  by (simp add: slugify_def strip_chars_def lower_def lower_char_def is_word_char_def
      is_sep_def isspace_def)

text \<open>
  Claim C7. \<^verbatim>\<open>School.save\<close> on a school whose slug is empty leaves the instance with
  the slugified name as its slug; on a school whose slug is not empty it leaves the slug
  as it was. When the save succeeds, the instance with that slug is a row of the table.
\<close>

theorem School_save_slug:
  "(s_slug s = [] \<longrightarrow> s_slug (fst (snd (School_save now s db))) = slugify (s_name s)) \<and>
   (s_slug s \<noteq> [] \<longrightarrow> s_slug (fst (snd (School_save now s db))) = s_slug s) \<and>
   (fst (School_save now s db) = Inr ()
      \<longrightarrow> fst (snd (School_save now s db)) \<in> set (schools (snd (snd (School_save now s db)))))"
  unfolding School_save_def
  using Model_save_School_stored by (simp add: Model_save_School_slug)

theorem School_save_slug_witness:
  "s_slug (fst (snd (School_save 200
       (test_high_school\<lparr>s_id := None, s_name := ''Hill Side College'', s_slug := [],
                         s_registration_number := ''HSC2025''\<rparr>) test_db)))
     = ''hill-side-college'' \<and>
   fst (School_save 200
       (test_high_school\<lparr>s_id := None, s_name := ''Hill Side College'', s_slug := [],
                         s_registration_number := ''HSC2025''\<rparr>) test_db) = Inr () \<and>
   s_slug (fst (snd (School_save 200 (test_high_school\<lparr>s_name := ''Test High''\<rparr>) test_db)))
     = ''test-high-school''"
  using School_save_slug [of "test_high_school\<lparr>s_id := None, s_name := ''Hill Side College'',
      s_slug := [], s_registration_number := ''HSC2025''\<rparr>" 200 test_db]
    School_save_slug [of "test_high_school\<lparr>s_name := ''Test High''\<rparr>" 200 test_db]
  by (simp add: School_save_def Model_save_School_def School_unique_conflict_def test_db_def
      test_high_school_def slugify_sample Let_def)

section \<open>Uniqueness of topics within a class\<close>

text \<open>
  Claim C6. Creating a topic whose title is already used by a topic of the same
  curriculum class fails with an integrity error and leaves the table as it was;
  creating a topic whose title is only used under other classes succeeds and appends
  the new row.
\<close>

theorem Topic_unique_together_enforced:
  "((\<exists>x \<in> set (topics tbl). t_curriculum_class x = curriculum_class \<and> t_title x = title)
      \<longrightarrow> (\<exists>m. Topic_objects_create now curriculum_class title description order_in_class tbl
                = (Inl (IntegrityError m), tbl))) \<and>
   ((\<exists>x \<in> set (topics tbl). t_title x = title) \<and>
    (\<forall>x \<in> set (topics tbl). t_title x = title \<longrightarrow> t_curriculum_class x \<noteq> curriculum_class)
      \<longrightarrow> (\<exists>topic tbl'. Topic_objects_create now curriculum_class title description order_in_class tbl
                = (Inr topic, tbl') \<and> t_curriculum_class topic = curriculum_class \<and>
                  t_title topic = title \<and> topics tbl' = topics tbl @ [topic]))"
  by (auto simp: Topic_objects_create_def Topic_unique_together_def Let_def)

theorem Topic_unique_together_witness:
  "(\<exists>m. Topic_objects_create 200 1 ''The Cell'' ''Cells again'' 2 topic_table
          = (Inl (IntegrityError m), topic_table)) \<and>
   (\<exists>topic tbl'. Topic_objects_create 200 2 ''The Cell'' ''Cells in S2'' 1 topic_table
          = (Inr topic, tbl') \<and> t_curriculum_class topic = 2 \<and> t_title topic = ''The Cell'' \<and>
            topics tbl' = topics topic_table @ [topic])"
  using Topic_unique_together_enforced [of topic_table 1 "''The Cell''" 200 "''Cells again''" 2]
    Topic_unique_together_enforced [of topic_table 2 "''The Cell''" 200 "''Cells in S2''" 1]
  by (simp add: topic_table_def the_cell_def)

section \<open>The answer to a password reset request\<close>

lemma filter_key_distinct:
  "distinct (map f xs) \<Longrightarrow> filter (\<lambda>x. f x = k) xs = [] \<or> (\<exists>x. filter (\<lambda>x. f x = k) xs = [x])"
proof (induction xs)
  case Nil
  then show ?case by simp
next
  case (Cons a xs)
  show ?case
  proof (cases "f a = k")
    case True
    from Cons.prems True have "k \<notin> set (map f xs)" by auto
    then have "\<forall>x \<in> set xs. f x \<noteq> k" by auto
    then have "filter (\<lambda>x. f x = k) xs = []" by (simp add: filter_empty_conv)
    with True show ?thesis by simp
  next
    case False
    with Cons show ?thesis by simp
  qed
qed

text \<open>
  Claim C8. For a request whose e-mail field validates, \<^verbatim>\<open>password_reset_request\<close>
  answers 200 with the same message on every user table (where e-mail addresses are
  unique, as the column declares): two runs on tables that differ in whether the
  address is present give equal responses.
\<close>

theorem password_reset_request_same_response:
  assumes "EmailField data_email = Inr email"
    and "distinct (map u_email (users db1))" and "distinct (map u_email (users db2))"
  shows "password_reset_request EmailField data_email db1
           = Inr (Response (Message ''Password reset link sent to email'') 200) \<and>
         password_reset_request EmailField data_email db2
           = password_reset_request EmailField data_email db1"
proof -
  have one: "password_reset_request EmailField data_email db
           = Inr (Response (Message ''Password reset link sent to email'') 200)"
    if "distinct (map u_email (users db))" for db
    using filter_key_distinct [OF that, of email] assms(1)
    by (auto simp: password_reset_request_def)
  show ?thesis using one [OF assms(2)] one [OF assms(3)] by simp
qed

theorem password_reset_request_witness:
  "sample_EmailField (Some ''teacher@testhigh.com'') = Inr ''teacher@testhigh.com'' \<and>
   distinct (map u_email (users test_db)) \<and>
   distinct (map u_email (users (test_db\<lparr>users := [super_admin]\<rparr>))) \<and>
   email_exists test_db ''teacher@testhigh.com'' \<and>
   \<not> email_exists (test_db\<lparr>users := [super_admin]\<rparr>) ''teacher@testhigh.com'' \<and>
   password_reset_request sample_EmailField (Some ''teacher@testhigh.com'') test_db
     = Inr (Response (Message ''Password reset link sent to email'') 200) \<and>
   password_reset_request sample_EmailField (Some ''teacher@testhigh.com'')
       (test_db\<lparr>users := [super_admin]\<rparr>)
     = password_reset_request sample_EmailField (Some ''teacher@testhigh.com'') test_db"
proof -
  have v: "sample_EmailField (Some ''teacher@testhigh.com'') = Inr ''teacher@testhigh.com''"
    by (simp add: sample_EmailField_def)
  have d1: "distinct (map u_email (users test_db))"
    by (simp add: test_db_def super_admin_def school_admin_def teacher_def)
  have d2: "distinct (map u_email (users (test_db\<lparr>users := [super_admin]\<rparr>)))"
    by simp
  have e: "email_exists test_db ''teacher@testhigh.com'' \<and>
      \<not> email_exists (test_db\<lparr>users := [super_admin]\<rparr>) ''teacher@testhigh.com''"
    by (simp add: email_exists_def test_db_def super_admin_def school_admin_def teacher_def)
  show ?thesis
    using password_reset_request_same_response
      [where EmailField = sample_EmailField and data_email = "Some ''teacher@testhigh.com''"
         and email = "''teacher@testhigh.com''" and ?db1.0 = test_db
         and ?db2.0 = "test_db\<lparr>users := [super_admin]\<rparr>", OF v d1 d2] v d1 d2 e
    by simp
qed

section \<open>Soft deletion\<close>

lemma filter_key_single:
  assumes "distinct (map f xs)" and "x \<in> set xs"
  shows "filter (\<lambda>y. f y = f x) xs = [x]"
proof -
  let ?F = "filter (\<lambda>y. f y = f x) xs"
  from assms(2) have "x \<in> set ?F" by simp
  moreover have "?F = [] \<or> (\<exists>z. ?F = [z])"
    by (rule filter_key_distinct [OF assms(1)])
  ultimately show ?thesis
    by (metis empty_iff empty_set set_ConsD)
qed

lemma map_update_key:
  assumes "distinct (map f xs)" and "x \<in> set xs"
  shows "map (\<lambda>y. if f y = f x then g x else y) xs = map (\<lambda>y. if f y = f x then g y else y) xs"
proof (rule map_cong [OF refl])
  fix y assume "y \<in> set xs"
  with assms have "f y = f x \<Longrightarrow> y = x"
    by (meson distinct_map inj_onD)
  then show "(if f y = f x then g x else y) = (if f y = f x then g y else y)" by auto
qed

lemma User_save_deactivate:
  assumes "distinct (map u_id (users db))" and "distinct (map u_email (users db))"
    and "user \<in> set (users db)"
  shows "User_save (user\<lparr>u_is_active := False\<rparr>) db
    = (Inr (), db\<lparr>users := map (\<lambda>x. if u_id x = u_id user then x\<lparr>u_is_active := False\<rparr> else x)
                              (users db)\<rparr>)"
proof -
  from assms(2) have "inj_on u_email (set (users db))"
    by (simp add: distinct_map)
  with assms(3) have "\<forall>x \<in> set (users db). u_email x = u_email user \<longrightarrow> x = user"
    by (auto dest: inj_onD)
  then have "\<not> (\<exists>x \<in> set (users db). u_id x \<noteq> u_id user \<and> u_email x = u_email user)"
    by auto
  then show ?thesis
    using map_update_key [OF assms(1,3), of "\<lambda>x. x\<lparr>u_is_active := False\<rparr>"]
    by (simp add: User_save_def)
qed

lemma UserDetailView_destroy_effect:
  assumes "distinct (map u_id (users db))" and "distinct (map u_email (users db))"
    and "user \<in> set (users db)" and "IsSuperAdmin_has_permission request_user"
  shows "UserDetailView_destroy request_user (u_id user) db
    = (Inr (Response (Message ''User deactivated successfully'') 200),
       db\<lparr>users := map (\<lambda>x. if u_id x = u_id user then x\<lparr>u_is_active := False\<rparr> else x)
                       (users db)\<rparr>)"
  using filter_key_single [OF assms(1,3)] User_save_deactivate [OF assms(1,2,3)] assms(4)
  by (simp add: UserDetailView_destroy_def get_object_or_404_def)

lemma SchoolUserDetailView_destroy_effect:
  assumes "distinct (map u_id (users db))" and "distinct (map u_email (users db))"
    and "user \<in> set (users db)" and "u_role requester = ''SCHOOL_ADMIN''"
    and "u_school user = u_school requester"
  shows "SchoolUserDetailView_destroy (Some requester) (u_id user) db
    = (Inr (Response (Message ''User deactivated successfully'') 200),
       db\<lparr>users := map (\<lambda>x. if u_id x = u_id user then x\<lparr>u_is_active := False\<rparr> else x)
                       (users db)\<rparr>)"
proof -
  have "filter (\<lambda>u. u_id u = u_id user) (filter (\<lambda>u. u_school u = u_school requester) (users db))
      = filter (\<lambda>u. u_school u = u_school requester) (filter (\<lambda>u. u_id u = u_id user) (users db))"
    by (simp add: conj_commute)
  also have "\<dots> = [user]"
    using filter_key_single [OF assms(1,3)] assms(5) by simp
  finally show ?thesis
    using User_save_deactivate [OF assms(1,2,3)] assms(4,5)
    by (simp add: SchoolUserDetailView_destroy_def get_object_or_404_def
        IsSchoolAdmin_has_permission_def IsSameSchool_has_object_permission_def User_object_def)
qed

lemma SchoolDetailView_destroy_effect:
  assumes "distinct (map s_id (schools db))" and "school \<in> set (schools db)"
    and "s_id school = Some pk" and "IsSuperAdmin_has_permission request_user"
    and "\<forall>x \<in> set (schools db). s_id x \<noteq> Some pk \<longrightarrow>
           s_name x \<noteq> s_name school \<and>
           s_registration_number x \<noteq> s_registration_number school \<and>
           s_slug x \<noteq> (if s_slug school = [] then slugify (s_name school) else s_slug school)"
  shows "SchoolDetailView_destroy request_user now pk db
    = (Inr (Response (Message ''School deactivated successfully'') 200),
       db\<lparr>schools :=
            map (\<lambda>x. if s_id x = Some pk
                      then x\<lparr>s_is_active := False,
                              s_slug := (if s_slug x = [] then slugify (s_name x) else s_slug x),
                              s_updated_at := now\<rparr>
                      else x) (schools db)\<rparr>)"
proof -
  let ?g = "\<lambda>x. x\<lparr>s_is_active := False,
                   s_slug := (if s_slug x = [] then slugify (s_name x) else s_slug x),
                   s_updated_at := now\<rparr>"
  have f: "filter (\<lambda>s. s_id s = Some pk) (schools db) = [school]"
    using filter_key_single [OF assms(1,2)] assms(3) by simp
  have m: "map (\<lambda>y. if s_id y = Some pk then ?g school else y) (schools db)
         = map (\<lambda>y. if s_id y = Some pk then ?g y else y) (schools db)"
    using map_update_key [OF assms(1,2), of ?g] assms(3) by simp
  have c: "\<not> School_unique_conflict (?g school) db"
    using assms(3,5) by (auto simp: School_unique_conflict_def)
  have e: "\<exists>x \<in> set (schools db). s_id x = Some pk"
    using assms(2,3) by auto
  have s: "School_save now (school\<lparr>s_is_active := False\<rparr>) db
         = (Inr (), ?g school, db\<lparr>schools := map (\<lambda>y. if s_id y = Some pk then ?g school else y) (schools db)\<rparr>)"
    using c e assms(3)
    by (cases "s_slug school = []") (simp_all add: School_save_def Model_save_School_def Let_def)
  show ?thesis
    using assms(4) f s m by (simp add: SchoolDetailView_destroy_def get_object_or_404_def)
qed

text \<open>
  Claim C3, as stated, fails for a school: the DELETE of a school goes through
  \<^verbatim>\<open>School.save\<close>, and saving stamps \<^verbatim>\<open>updated_at\<close> (declared \<^verbatim>\<open>auto_now\<close>) with
  the time of the save, so a second field of the row changes.
\<close>

theorem soft_delete_changes_updated_at:
  "fst (SchoolDetailView_destroy (Some super_admin) 200 1 test_db)
     = Inr (Response (Message ''School deactivated successfully'') 200) \<and>
   schools (snd (SchoolDetailView_destroy (Some super_admin) 200 1 test_db))
     \<noteq> [test_high_school\<lparr>s_is_active := False\<rparr>] \<and>
   map s_updated_at (schools test_db) = [100] \<and>
   map s_updated_at (schools (snd (SchoolDetailView_destroy (Some super_admin) 200 1 test_db)))
     = [200]"
  by (simp add: SchoolDetailView_destroy_def get_object_or_404_def School_save_def
      Model_save_School_def School_unique_conflict_def IsSuperAdmin_has_permission_def
      test_db_def test_high_school_def super_admin_def Let_def)

text \<open>
  Claim C3, amended. On a database whose primary keys and user e-mail addresses are
  unique, the DELETE of a stored user, by a Super Admin or by a School Admin of the
  user's school, answers 200 with a confirmation message and changes nothing but
  \<^verbatim>\<open>is_active\<close> of that row, which becomes false. The DELETE of a stored school by a
  Super Admin answers 200 with a confirmation message, sets \<^verbatim>\<open>is_active\<close> of that row
  to false, sets its \<^verbatim>\<open>updated_at\<close> to the time of the save and fills its slug from the
  name if the slug was empty (provided no other school then shares its name, slug or
  registration number); no other field and no other row of any table changes, and no
  row is removed.
\<close>

theorem soft_delete_effect:
  assumes "distinct (map u_id (users db))" and "distinct (map u_email (users db))"
    and "distinct (map s_id (schools db))"
  shows
   "(user \<in> set (users db) \<and> IsSuperAdmin_has_permission request_user \<longrightarrow>
       UserDetailView_destroy request_user (u_id user) db
       = (Inr (Response (Message ''User deactivated successfully'') 200),
          db\<lparr>users := map (\<lambda>x. if u_id x = u_id user then x\<lparr>u_is_active := False\<rparr> else x)
                          (users db)\<rparr>)) \<and>
    (user \<in> set (users db) \<and> u_role requester = ''SCHOOL_ADMIN'' \<and>
     u_school user = u_school requester \<longrightarrow>
       SchoolUserDetailView_destroy (Some requester) (u_id user) db
       = (Inr (Response (Message ''User deactivated successfully'') 200),
          db\<lparr>users := map (\<lambda>x. if u_id x = u_id user then x\<lparr>u_is_active := False\<rparr> else x)
                          (users db)\<rparr>)) \<and>
    (school \<in> set (schools db) \<and> s_id school = Some pk \<and>
     IsSuperAdmin_has_permission request_user \<and>
     (\<forall>x \<in> set (schools db). s_id x \<noteq> Some pk \<longrightarrow>
        s_name x \<noteq> s_name school \<and>
        s_registration_number x \<noteq> s_registration_number school \<and>
        s_slug x \<noteq> (if s_slug school = [] then slugify (s_name school) else s_slug school)) \<longrightarrow>
       SchoolDetailView_destroy request_user now pk db
       = (Inr (Response (Message ''School deactivated successfully'') 200),
          db\<lparr>schools :=
               map (\<lambda>x. if s_id x = Some pk
                         then x\<lparr>s_is_active := False,
                                 s_slug := (if s_slug x = [] then slugify (s_name x) else s_slug x),
                                 s_updated_at := now\<rparr>
                         else x) (schools db)\<rparr>))"
proof (intro conjI impI)
  assume "user \<in> set (users db) \<and> IsSuperAdmin_has_permission request_user"
  then show "UserDetailView_destroy request_user (u_id user) db
       = (Inr (Response (Message ''User deactivated successfully'') 200),
          db\<lparr>users := map (\<lambda>x. if u_id x = u_id user then x\<lparr>u_is_active := False\<rparr> else x)
                          (users db)\<rparr>)"
    using UserDetailView_destroy_effect [OF assms(1,2)] by blast
next
  assume "user \<in> set (users db) \<and> u_role requester = ''SCHOOL_ADMIN'' \<and>
     u_school user = u_school requester"
  then show "SchoolUserDetailView_destroy (Some requester) (u_id user) db
       = (Inr (Response (Message ''User deactivated successfully'') 200),
          db\<lparr>users := map (\<lambda>x. if u_id x = u_id user then x\<lparr>u_is_active := False\<rparr> else x)
                          (users db)\<rparr>)"
    using SchoolUserDetailView_destroy_effect [OF assms(1,2)] by blast
next
  assume a: "school \<in> set (schools db) \<and> s_id school = Some pk \<and>
     IsSuperAdmin_has_permission request_user \<and>
     (\<forall>x \<in> set (schools db). s_id x \<noteq> Some pk \<longrightarrow>
        s_name x \<noteq> s_name school \<and>
        s_registration_number x \<noteq> s_registration_number school \<and>
        s_slug x \<noteq> (if s_slug school = [] then slugify (s_name school) else s_slug school))"
  show "SchoolDetailView_destroy request_user now pk db
       = (Inr (Response (Message ''School deactivated successfully'') 200),
          db\<lparr>schools :=
               map (\<lambda>x. if s_id x = Some pk
                         then x\<lparr>s_is_active := False,
                                 s_slug := (if s_slug x = [] then slugify (s_name x) else s_slug x),
                                 s_updated_at := now\<rparr>
                         else x) (schools db)\<rparr>)"
    by (rule SchoolDetailView_destroy_effect [OF assms(3)]) (use a in blast)+
qed

theorem soft_delete_witness:
  "distinct (map u_id (users test_db)) \<and> distinct (map u_email (users test_db)) \<and>
   distinct (map s_id (schools test_db)) \<and>
   UserDetailView_destroy (Some super_admin) 3 test_db
     = (Inr (Response (Message ''User deactivated successfully'') 200),
        test_db\<lparr>users := [super_admin, school_admin, teacher\<lparr>u_is_active := False\<rparr>]\<rparr>) \<and>
   SchoolUserDetailView_destroy (Some school_admin) 3 test_db
     = (Inr (Response (Message ''User deactivated successfully'') 200),
        test_db\<lparr>users := [super_admin, school_admin, teacher\<lparr>u_is_active := False\<rparr>]\<rparr>) \<and>
   SchoolDetailView_destroy (Some super_admin) 200 1 test_db
     = (Inr (Response (Message ''School deactivated successfully'') 200),
        test_db\<lparr>schools := [test_high_school\<lparr>s_is_active := False, s_updated_at := 200\<rparr>]\<rparr>)"
proof -
  have d: "distinct (map u_id (users test_db))" "distinct (map u_email (users test_db))"
    "distinct (map s_id (schools test_db))"
    by (simp_all add: test_db_def super_admin_def school_admin_def teacher_def)
  have t: "teacher \<in> set (users test_db)" "test_high_school \<in> set (schools test_db)"
    by (simp_all add: test_db_def)
  have i: "u_id teacher = 3" "u_school teacher = u_school school_admin"
    "u_role school_admin = ''SCHOOL_ADMIN''" "IsSuperAdmin_has_permission (Some super_admin)"
    "s_id test_high_school = Some 1" "s_slug test_high_school \<noteq> []"
    by (simp_all add: teacher_def school_admin_def super_admin_def test_high_school_def
        IsSuperAdmin_has_permission_def)
  have m: "users test_db = [super_admin, school_admin, teacher]"
    "schools test_db = [test_high_school]"
    "u_id super_admin = 1" "u_id school_admin = 2"
    by (simp_all add: test_db_def super_admin_def school_admin_def)
  show ?thesis
    using soft_delete_effect [OF d, where user = teacher and request_user = "Some super_admin"
        and requester = school_admin and school = test_high_school and pk = 1 and now = 200]
      d t i
    by (simp add: m)
qed

section \<open>Profiles created on registration\<close>



text \<open>
  The call returns a user whenever the address is new and the keys the profiles would
  take are free; it raises an integrity error otherwise, and a user row inserted
  before the error stays in the table.
\<close>

lemma registration_create_succeeds:
  assumes "\<not> email_exists db (a_email validated_data)"
    and "\<forall>p \<in> set (teacher_profiles db). tp_user p \<noteq> users_seq db"
    and "\<forall>p \<in> set (student_profiles db).
           sp_user p \<noteq> users_seq db \<and> sp_student_id p \<noteq> ''STD'' @ format_06d (users_seq db)"
  shows "\<exists>user db'. UserRegistrationSerializer_create now validated_data db = (Inr user, db') \<and>
           u_id user = users_seq db"
  using assms
  by (auto simp: UserRegistrationSerializer_create_def User_insert_def User_save_def
      TeacherProfile_objects_create_def StudentProfile_objects_create_def email_exists_def
      Let_def)



section \<open>Defaults in bulk student creation\<close>




lemma sample_texts:
  "str_nat (Suc 0) = ''1''" "str_nat (Suc (Suc 0)) = ''2''"
  "format_06d 4 = ''000004''" "format_06d 5 = ''000005''"
  "normalize_email ''brian@testhigh.com'' = ''brian@testhigh.com''"
  "normalize_email ''carol@testhigh.com'' = ''carol@testhigh.com''"
  "strip ''Brian Mugisha'' = ''Brian Mugisha''"
  "strip ''Carol Namara'' = ''Carol Namara''"
  by code_simp+

lemmas bulk_defs =
  BulkStudentCreateView_post_def BulkStudentCreateSerializer_is_valid_def validate_students_def
  validate_student_def create_student_def create_user_def User_insert_def
  StudentProfile_objects_create_def IsSchoolAdmin_has_permission_def request_user_school_def
  required_fields_def valid_levels_def email_exists_def dict_get_def get_full_name_def
  py_str_def quoted_def Let_def


lemma bulk_sample_rows:
  "map u_password
     (users (snd (BulkStudentCreateView_post (Some school_admin) 200 [student_a, student_b] test_db)))
   = [Hashed ''Admin@2025'', Hashed ''School@2025'', Hashed ''Teacher@2025'',
      Hashed ''BioTutor2025!'', Hashed ''Carol@2025'']"
  "map sp_student_id
     (student_profiles
        (snd (BulkStudentCreateView_post (Some school_admin) 200 [student_a, student_b] test_db)))
   = [''STD000004'', ''THS-0042'']"
  by (simp_all add: bulk_defs sample_texts student_a_def student_b_def test_db_def
      super_admin_def school_admin_def teacher_def)



section \<open>Rejection of a bulk request\<close>

lemma validate_student_error:
  "validate_student db idx sd = Some e \<Longrightarrow> \<exists>m. e = ValidationError ''students'' m"
  by (auto simp: validate_student_def Let_def split: option.splits if_splits)

lemma validate_student_rejects:
  assumes "(\<exists>field \<in> set required_fields. sd field = None) \<or>
           (\<exists>e. sd ''email'' = Some e \<and> e \<noteq> [] \<and> email_exists db e)"
  shows "validate_student db idx sd \<noteq> None"
proof (cases "find (\<lambda>field. sd field = None) required_fields")
  case (Some field)
  then show ?thesis by (simp add: validate_student_def)
next
  case None
  then have "\<not> (\<exists>field \<in> set required_fields. sd field = None)"
    by (simp add: find_None_iff)
  with assms obtain e where "sd ''email'' = Some e" "e \<noteq> []" "email_exists db e" by blast
  with None show ?thesis by (simp add: validate_student_def)
qed

lemma validate_students_from_rejects:
  "\<exists>sd \<in> set sds. (\<exists>field \<in> set required_fields. sd field = None) \<or>
                     (\<exists>e. sd ''email'' = Some e \<and> e \<noteq> [] \<and> email_exists db e) \<Longrightarrow>
   \<exists>m. validate_students_from db idx sds = Some (ValidationError ''students'' m)"
proof (induction sds arbitrary: idx)
  case Nil
  then show ?case by simp
next
  case (Cons sd sds)
  show ?case
  proof (cases "validate_student db idx sd")
    case (Some e)
    with validate_student_error [OF Some] show ?thesis by auto
  next
    case None
    with validate_student_rejects [of sd db idx] Cons.prems
    have "\<exists>sd \<in> set sds. (\<exists>field \<in> set required_fields. sd field = None) \<or>
                     (\<exists>e. sd ''email'' = Some e \<and> e \<noteq> [] \<and> email_exists db e)"
      by auto
    from Cons.IH [OF this, of "Suc idx"] None show ?thesis by simp
  qed
qed

lemma validate_students_from_error:
  "validate_students_from db idx sds = Some e \<Longrightarrow> \<exists>m. e = ValidationError ''students'' m"
  by (induction sds arbitrary: idx) (auto split: option.splits dest: validate_student_error)

text \<open>
  Claim C2, as stated, fails: a bulk request can fail after rows have been written.
  Two entries with the same new address pass validation, which looks each address up
  in the table as it is before the loop; the first entry is created, the second is
  refused by the unique index on \<^verbatim>\<open>email\<close>, and the request ends in an integrity
  error, not a validation error, with the first user and profile left in the database.
\<close>

theorem bulk_create_partial_failure:
  "fst (BulkStudentCreateView_post (Some school_admin) 200
          [student_a, student_a(''first_name'' \<mapsto> ''Brenda'')] test_db)
     = Inl (IntegrityError ''users.email'') \<and>
   map u_email (users (snd (BulkStudentCreateView_post (Some school_admin) 200
          [student_a, student_a(''first_name'' \<mapsto> ''Brenda'')] test_db)))
     = map u_email (users test_db) @ [''brian@testhigh.com''] \<and>
   map sp_student_id (student_profiles (snd (BulkStudentCreateView_post (Some school_admin) 200
          [student_a, student_a(''first_name'' \<mapsto> ''Brenda'')] test_db)))
     = [''STD000004''] \<and>
   student_profiles test_db = [] \<and>
   snd (BulkStudentCreateView_post (Some school_admin) 200
          [student_a, student_a(''first_name'' \<mapsto> ''Brenda'')] test_db) \<noteq> test_db"
  by (simp add: bulk_defs sample_texts student_a_def test_db_def
      super_admin_def school_admin_def teacher_def)

text \<open>
  Claim C2, amended. For a request of a School Admin: if an entry lacks one of the
  required fields, or carries a non-empty address that is already in the user table
  when the request arrives, the request is answered 400 with a validation error and
  the database is unchanged; and every bulk request answered 400 leaves the database
  unchanged.
\<close>

theorem bulk_validation_rejects:
  assumes "IsSchoolAdmin_has_permission request_user"
  shows
   "((\<exists>sd \<in> set students.
        (\<exists>field \<in> set required_fields. sd field = None) \<or>
        (\<exists>e. sd ''email'' = Some e \<and> e \<noteq> [] \<and> email_exists db e)) \<longrightarrow>
       (\<exists>message. BulkStudentCreateView_post request_user now students db
          = (Inr (Response (Errors [(''students'', [message])]) 400), db))) \<and>
    (\<forall>body db'. BulkStudentCreateView_post request_user now students db
          = (Inr (Response body 400), db') \<longrightarrow> db' = db)"
proof (intro conjI impI allI)
  assume bad: "\<exists>sd \<in> set students.
        (\<exists>field \<in> set required_fields. sd field = None) \<or>
        (\<exists>e. sd ''email'' = Some e \<and> e \<noteq> [] \<and> email_exists db e)"
  then have "students \<noteq> []" by auto
  moreover from validate_students_from_rejects [OF bad, of 0] obtain m where
    "validate_students_from db 0 students = Some (ValidationError ''students'' m)" by blast
  ultimately show "\<exists>message. BulkStudentCreateView_post request_user now students db
          = (Inr (Response (Errors [(''students'', [message])]) 400), db)"
    using assms
    by (simp add: BulkStudentCreateView_post_def BulkStudentCreateSerializer_is_valid_def
        validate_students_def)
next
  fix body db'
  assume "BulkStudentCreateView_post request_user now students db
          = (Inr (Response body 400), db')"
  then show "db' = db"
    by (auto simp: BulkStudentCreateView_post_def
        split: if_splits sum.splits error.splits prod.splits)
qed

theorem bulk_validation_rejects_witness:
  "IsSchoolAdmin_has_permission (Some school_admin) \<and>
   BulkStudentCreateView_post (Some school_admin) 200
       [student_a, student_b(''first_name'' := None)] test_db
     = (Inr (Response (Errors [(''students'',
            [''Student 2: Missing required field '' @ quoted ''first_name''])]) 400), test_db) \<and>
   BulkStudentCreateView_post (Some school_admin) 200
       [student_a, student_b(''email'' \<mapsto> ''teacher@testhigh.com'')] test_db
     = (Inr (Response (Errors [(''students'',
            [''Student 2: Email '' @ quoted ''teacher@testhigh.com'' @ '' already exists''])]) 400),
        test_db)"
proof -
  have p: "IsSchoolAdmin_has_permission (Some school_admin)"
    by (simp add: IsSchoolAdmin_has_permission_def school_admin_def)
  have m: "student_b(''first_name'' := None) \<in> set [student_a, student_b(''first_name'' := None)]"
    "''first_name'' \<in> set required_fields"
    "(student_b(''first_name'' := None)) ''first_name'' = None"
    by (simp_all add: required_fields_def)
  have e: "student_b(''email'' \<mapsto> ''teacher@testhigh.com'')
             \<in> set [student_a, student_b(''email'' \<mapsto> ''teacher@testhigh.com'')]"
    "(student_b(''email'' \<mapsto> ''teacher@testhigh.com'')) ''email'' = Some ''teacher@testhigh.com''"
    "email_exists test_db ''teacher@testhigh.com''"
    by (simp_all add: email_exists_def test_db_def teacher_def)
  have bad1: "\<exists>sd \<in> set [student_a, student_b(''first_name'' := None)].
        (\<exists>field \<in> set required_fields. sd field = None) \<or>
        (\<exists>e. sd ''email'' = Some e \<and> e \<noteq> [] \<and> email_exists test_db e)"
    using m by blast
  have bad2: "\<exists>sd \<in> set [student_a, student_b(''email'' \<mapsto> ''teacher@testhigh.com'')].
        (\<exists>field \<in> set required_fields. sd field = None) \<or>
        (\<exists>e. sd ''email'' = Some e \<and> e \<noteq> [] \<and> email_exists test_db e)"
    using e by blast
  from bulk_validation_rejects [OF p, of "[student_a, student_b(''first_name'' := None)]"
      test_db 200] bad1
  obtain m1 where r1: "BulkStudentCreateView_post (Some school_admin) 200
       [student_a, student_b(''first_name'' := None)] test_db
     = (Inr (Response (Errors [(''students'', [m1])]) 400), test_db)" by blast
  from bulk_validation_rejects [OF p, of "[student_a, student_b(''email'' \<mapsto> ''teacher@testhigh.com'')]"
      test_db 200] bad2
  obtain m2 where r2: "BulkStudentCreateView_post (Some school_admin) 200
       [student_a, student_b(''email'' \<mapsto> ''teacher@testhigh.com'')] test_db
     = (Inr (Response (Errors [(''students'', [m2])]) 400), test_db)" by blast
  have "m1 = ''Student 2: Missing required field '' @ quoted ''first_name''"
    using r1
    by (simp add: bulk_defs sample_texts student_a_def student_b_def test_db_def
        super_admin_def school_admin_def teacher_def)
  moreover have "m2 = ''Student 2: Email '' @ quoted ''teacher@testhigh.com'' @ '' already exists''"
    using r2
    by (simp add: bulk_defs sample_texts student_a_def student_b_def test_db_def
        super_admin_def school_admin_def teacher_def)
  ultimately show ?thesis using p r1 r2 by simp
qed

section \<open>Role and school of a created user\<close>

text \<open>
  What \<^verbatim>\<open>validate\<close> checks is kept by \<^verbatim>\<open>create\<close> when nothing is merged over the
  validated data: the user has a school exactly when its role is not \<^verbatim>\<open>SUPER_ADMIN\<close>.
\<close>

lemma registration_keeps_role_school:
  assumes "validate attrs = Inr validated_data"
    and "UserRegistrationSerializer_create now validated_data db = (Inr user, db')"
  shows "(u_role user \<noteq> ''SUPER_ADMIN'' \<longrightarrow> u_school user \<noteq> None) \<and>
         (u_role user = ''SUPER_ADMIN'' \<longrightarrow> u_school user = None)"
proof -
  from assms(1) have v: "validated_data = attrs"
    "\<not> (a_role attrs = ''SUPER_ADMIN'' \<and> a_school attrs \<noteq> None)"
    "\<not> (a_role attrs \<noteq> ''SUPER_ADMIN'' \<and> a_school attrs = None)"
    by (auto simp: validate_def split: if_splits)
  from assms(2) have "u_role user = a_role validated_data \<and> u_school user = a_school validated_data"
    by (auto simp: UserRegistrationSerializer_create_def User_insert_def User_save_def
        TeacherProfile_objects_create_def StudentProfile_objects_create_def Let_def
        split: if_splits)
  with v show ?thesis by auto
qed

text \<open>
  Claim C1 says that every user created by a user-creation operation has a school if
  its role is not \<^verbatim>\<open>SUPER_ADMIN\<close> and none if it is. \<^verbatim>\<open>SchoolAdminCreateView\<close> does
  not keep this: the serializer validates the role of the request, and
  \<^verbatim>\<open>perform_create\<close> replaces the role afterwards. A request with the role
  \<^verbatim>\<open>SUPER_ADMIN\<close> and no school passes validation and is stored, with status 201, as
  a \<^verbatim>\<open>SCHOOL_ADMIN\<close> without a school.
\<close>

theorem school_admin_created_without_school:
  "validate (registration\<lparr>a_role := ''SUPER_ADMIN'', a_school := None\<rparr>)
     = Inr (registration\<lparr>a_role := ''SUPER_ADMIN'', a_school := None\<rparr>) \<and>
   fst (SchoolAdminCreateView_post (Some super_admin) 200
          (registration\<lparr>a_role := ''SUPER_ADMIN'', a_school := None\<rparr>) test_db)
     = Inr (Response (RegisteredUser 4 ''amina@testhigh.com'' ''Amina'' ''Okello''
                        ''SCHOOL_ADMIN'' None) 201) \<and>
   map (\<lambda>u. (u_id u, u_role u, u_school u))
     (users (snd (SchoolAdminCreateView_post (Some super_admin) 200
          (registration\<lparr>a_role := ''SUPER_ADMIN'', a_school := None\<rparr>) test_db)))
     = [(1, ''SUPER_ADMIN'', None), (2, ''SCHOOL_ADMIN'', Some 1), (3, ''TEACHER'', Some 1),
        (4, ''SCHOOL_ADMIN'', None)]"
  by (simp add: SchoolAdminCreateView_post_def CreateAPIView_create_def validate_def
      IsSuperAdmin_has_permission_def UserRegistrationSerializer_create_def User_insert_def
      User_save_def email_exists_def Let_def registration_def test_db_def super_admin_def
      school_admin_def teacher_def)

end
